theory Spec2Isabelle
  imports Main
begin

section \<open>Values\<close>

text \<open>
  The program is \<^verbatim>\<open>app/main.py\<close>: \<^verbatim>\<open>produce_messages\<close>, \<^verbatim>\<open>consume_messages\<close> and the
  \<^verbatim>\<open>__main__\<close> block. A Python \<^verbatim>\<open>bytes\<close> value is a list of bytes (a HOL \<open>char\<close> is one
  byte); a Python \<^verbatim>\<open>str\<close> is represented by its UTF-8 encoding, so decoding a valid
  payload and printing it leaves the bytes as they are.
\<close>

type_synonym bytes = string

text \<open>
  The exceptions the program distinguishes: \<^verbatim>\<open>except KafkaError\<close> comes first, then
  \<^verbatim>\<open>except Exception\<close>. Each value carries \<^verbatim>\<open>str(e)\<close>. All of them are instances of
  Python's \<^verbatim>\<open>Exception\<close>; interrupts of the interpreter are not raised by the calls
  modelled here.
\<close>

datatype py_exception =
    KafkaError string
  | UnicodeDecodeError string
  | OtherException string

fun str_of :: "py_exception \<Rightarrow> string" where
  "str_of (KafkaError s) = s"
| "str_of (UnicodeDecodeError s) = s"
| "str_of (OtherException s) = s"

fun is_KafkaError :: "py_exception \<Rightarrow> bool" where
  "is_KafkaError (KafkaError s) = True"
| "is_KafkaError (UnicodeDecodeError s) = False"
| "is_KafkaError (OtherException s) = False"

text \<open>
  A call returns a value, raises, or blocks for ever (a pull on a consumer that has no
  idle timeout and no message to hand out).
\<close>

datatype 'a outcome = Returned 'a | Raised py_exception | Blocked

text \<open>
  The result record the specification describes for a publish. The source builds none:
  the value a Python function returns is \<open>Some r\<close> for such a record and \<open>None\<close> for
  Python's \<^verbatim>\<open>None\<close>.
\<close>

record PublishResult =
  delivered :: bool
  result_topic :: string
  offset :: "int option"
  error_kind :: "string option"

section \<open>Decoding UTF-8\<close>

text \<open>
  \<^verbatim>\<open>bytes.decode('utf-8')\<close> is strict: it raises \<^verbatim>\<open>UnicodeDecodeError\<close> on a byte sequence
  that is not well-formed UTF-8 (overlong forms, surrogates and code points above
  U+10FFFF included).
\<close>

definition continuation :: "nat \<Rightarrow> bool" where
  "continuation b = (0x80 \<le> b \<and> b \<le> 0xBF)"

fun utf8_valid :: "nat list \<Rightarrow> bool" where
  "utf8_valid [] = True"
| "utf8_valid (b # bs) =
    (if b < 0x80 then utf8_valid bs
     else if 0xC2 \<le> b \<and> b \<le> 0xDF then
       (case bs of
          c1 # r \<Rightarrow> continuation c1 \<and> utf8_valid r
        | _ \<Rightarrow> False)
     else if 0xE0 \<le> b \<and> b \<le> 0xEF then
       (case bs of
          c1 # c2 # r \<Rightarrow>
            (if b = 0xE0 then 0xA0 \<le> c1 \<and> c1 \<le> 0xBF
             else if b = 0xED then 0x80 \<le> c1 \<and> c1 \<le> 0x9F
             else continuation c1)
            \<and> continuation c2 \<and> utf8_valid r
        | _ \<Rightarrow> False)
     else if 0xF0 \<le> b \<and> b \<le> 0xF4 then
       (case bs of
          c1 # c2 # c3 # r \<Rightarrow>
            (if b = 0xF0 then 0x90 \<le> c1 \<and> c1 \<le> 0xBF
             else if b = 0xF4 then 0x80 \<le> c1 \<and> c1 \<le> 0x8F
             else continuation c1)
            \<and> continuation c2 \<and> continuation c3 \<and> utf8_valid r
        | _ \<Rightarrow> False)
     else False)"

definition decodable :: "bytes \<Rightarrow> bool" where
  "decodable bs = utf8_valid (map of_char bs)"

text \<open>
  The decoder of the interpreter reports the first malformed sequence: the position where it
  starts, the position after the bytes it rejects, and the reason. A byte that cannot start
  a sequence is an invalid start byte; a lead byte whose second, third or fourth byte is not
  acceptable is rejected together with the accepted bytes before that one; a sequence cut
  off by the end of the data is rejected up to the end.
\<close>

datatype utf8_fault = Utf8_fault (fault_start: nat) (fault_end: nat) (fault_reason: string)

definition second_byte_ok :: "nat \<Rightarrow> nat \<Rightarrow> bool" where
  "second_byte_ok b c =
     (continuation c
      \<and> \<not> (b = 0xE0 \<and> c < 0xA0) \<and> \<not> (b = 0xED \<and> 0xA0 \<le> c)
      \<and> \<not> (b = 0xF0 \<and> c < 0x90) \<and> \<not> (b = 0xF4 \<and> 0x90 \<le> c))"

fun utf8_scan :: "nat \<Rightarrow> nat list \<Rightarrow> utf8_fault option" where
  "utf8_scan p [] = None"
| "utf8_scan p (b # bs) =
    (if b < 0x80 then utf8_scan (p + 1) bs
     else if b < 0xC2 then Some (Utf8_fault p (p + 1) ''invalid start byte'')
     else if b < 0xE0 then
       (case bs of
          [] \<Rightarrow> Some (Utf8_fault p (p + 1) ''unexpected end of data'')
        | c1 # r \<Rightarrow>
            if \<not> continuation c1 then Some (Utf8_fault p (p + 1) ''invalid continuation byte'')
            else utf8_scan (p + 2) r)
     else if b < 0xF0 then
       (case bs of
          [] \<Rightarrow> Some (Utf8_fault p (p + 1) ''unexpected end of data'')
        | [c1] \<Rightarrow>
            if \<not> second_byte_ok b c1
            then Some (Utf8_fault p (p + 1) ''invalid continuation byte'')
            else Some (Utf8_fault p (p + 2) ''unexpected end of data'')
        | c1 # c2 # r \<Rightarrow>
            if \<not> second_byte_ok b c1
            then Some (Utf8_fault p (p + 1) ''invalid continuation byte'')
            else if \<not> continuation c2
            then Some (Utf8_fault p (p + 2) ''invalid continuation byte'')
            else utf8_scan (p + 3) r)
     else if b < 0xF5 then
       (case bs of
          [] \<Rightarrow> Some (Utf8_fault p (p + 1) ''unexpected end of data'')
        | [c1] \<Rightarrow>
            if \<not> second_byte_ok b c1
            then Some (Utf8_fault p (p + 1) ''invalid continuation byte'')
            else Some (Utf8_fault p (p + 2) ''unexpected end of data'')
        | [c1, c2] \<Rightarrow>
            if \<not> second_byte_ok b c1
            then Some (Utf8_fault p (p + 1) ''invalid continuation byte'')
            else if \<not> continuation c2
            then Some (Utf8_fault p (p + 2) ''invalid continuation byte'')
            else Some (Utf8_fault p (p + 3) ''unexpected end of data'')
        | c1 # c2 # c3 # r \<Rightarrow>
            if \<not> second_byte_ok b c1
            then Some (Utf8_fault p (p + 1) ''invalid continuation byte'')
            else if \<not> continuation c2
            then Some (Utf8_fault p (p + 2) ''invalid continuation byte'')
            else if \<not> continuation c3
            then Some (Utf8_fault p (p + 3) ''invalid continuation byte'')
            else utf8_scan (p + 4) r)
     else Some (Utf8_fault p (p + 1) ''invalid start byte''))"

text \<open>
  \<^verbatim>\<open>str(e)\<close> of a \<^verbatim>\<open>UnicodeDecodeError\<close>: the codec, then the rejected byte in hexadecimal and
  its position when one byte is rejected, or the first and last position when several are,
  then the reason. \<open>CHR 0x27\<close> is the apostrophe.
\<close>

definition digits :: string where
  "digits = ''0123456789abcdef''"

function decimal :: "nat \<Rightarrow> string" where
  "decimal n = (if n < 10 then [digits ! n] else decimal (n div 10) @ [digits ! (n mod 10)])"
  by pat_completeness auto
termination
  by (relation "measure id") auto

definition hex2 :: "nat \<Rightarrow> string" where
  "hex2 b = [digits ! (b div 16), digits ! (b mod 16)]"

definition codec_text :: string where
  "codec_text = CHR 0x27 # ''utf-8'' @ CHR 0x27 # '' codec can'' @ CHR 0x27 # ''t decode ''"

definition fault_text :: "nat list \<Rightarrow> utf8_fault \<Rightarrow> string" where
  "fault_text bs flt =
     codec_text @
     (if fault_end flt = fault_start flt + 1
      then ''byte 0x'' @ hex2 (bs ! fault_start flt) @ '' in position '' @
           decimal (fault_start flt)
      else ''bytes in position '' @ decimal (fault_start flt) @ ''-'' @
           decimal (fault_end flt - 1)) @
     '': '' @ fault_reason flt"

definition decode_utf8 :: "bytes \<Rightarrow> py_exception + string" where
  "decode_utf8 bs =
     (case utf8_scan 0 (map of_char bs) of
        None \<Rightarrow> Inr bs
      | Some flt \<Rightarrow> Inl (UnicodeDecodeError (fault_text (map of_char bs) flt)))"

section \<open>The broker and the client library\<close>

text \<open>
  The kafka client and the broker are not part of the repository. They are modelled as
  far as the program uses them: a broker keeps, for each topic, the list of retained
  payloads in offset order; a producer queues a record on \<^verbatim>\<open>send\<close> and \<^verbatim>\<open>flush\<close> waits
  until the queued records are written or have failed; a consumer without a group reads
  a topic from the position \<^verbatim>\<open>auto_offset_reset\<close> names and its iterator ends when no
  message has arrived for \<^verbatim>\<open>consumer_timeout_ms\<close> (and never when that option is left
  unset). Every retained record has a value, and no other client writes to the broker
  during a run.
\<close>

datatype offset_reset = Earliest | Latest

record consumer_config =
  cfg_topic :: string
  bootstrap_servers :: string
  auto_offset_reset :: offset_reset
  consumer_timeout_ms :: "nat option"

text \<open>What the program does, in order: the calls it makes and what its iterator hands out.\<close>

datatype event =
    NewProducer string
  | Send string bytes
  | Flush
  | Print string
  | Sleep nat
  | NewConsumer consumer_config
  | Yield bytes
  | IdleTimeout nat
  | CloseProducer
  | CloseConsumer

text \<open>
  The conditions of a run: which library call raises, if any. \<open>delivery_error\<close> is a
  write the broker refuses: the client reports it through the future that \<^verbatim>\<open>send\<close>
  returns, and raises nothing. \<open>poll_error k\<close> is raised by pull number \<open>k\<close> of the
  consumer's iterator.
\<close>

record faults =
  producer_init_error :: "py_exception option"
  send_error :: "py_exception option"
  delivery_error :: "py_exception option"
  flush_error :: "py_exception option"
  consumer_init_error :: "py_exception option"
  poll_error :: "nat \<Rightarrow> py_exception option"

definition no_faults :: faults where
  "no_faults =
     \<lparr>producer_init_error = None, send_error = None, delivery_error = None,
      flush_error = None, consumer_init_error = None, poll_error = (\<lambda>k. None)\<rparr>"

record world =
  topics :: "string \<Rightarrow> bytes list"
  in_flight :: "(string \<times> bytes) list"
  trace :: "event list"

definition boot :: "(string \<Rightarrow> bytes list) \<Rightarrow> world" where
  "boot logs = \<lparr>topics = logs, in_flight = [], trace = []\<rparr>"

definition emit :: "event \<Rightarrow> world \<Rightarrow> world" where
  "emit ev w = w\<lparr>trace := trace w @ [ev]\<rparr>"

type_synonym 'a call = "world \<Rightarrow> 'a outcome \<times> world"

text \<open>Sequencing: the second call runs only when the first has returned.\<close>

definition then_do :: "'a call \<Rightarrow> ('a \<Rightarrow> 'b call) \<Rightarrow> 'b call" where
  "then_do m k w =
     (case m w of
        (Returned a, w') \<Rightarrow> k a w'
      | (Raised e, w') \<Rightarrow> (Raised e, w')
      | (Blocked, w') \<Rightarrow> (Blocked, w'))"

definition print :: "string \<Rightarrow> unit call" where
  "print s w = (Returned (), emit (Print s) w)"

definition sleep :: "nat \<Rightarrow> unit call" where
  "sleep secs w = (Returned (), emit (Sleep secs) w)"

definition KafkaProducer :: "faults \<Rightarrow> string \<Rightarrow> unit call" where
  "KafkaProducer f servers w =
     (let w' = emit (NewProducer servers) w in
      case producer_init_error f of
        Some e \<Rightarrow> (Raised e, w')
      | None \<Rightarrow> (Returned (), w'))"

definition producer_send :: "faults \<Rightarrow> string \<Rightarrow> bytes \<Rightarrow> unit call" where
  "producer_send f t v w =
     (let w' = emit (Send t v) w in
      case send_error f of
        Some e \<Rightarrow> (Raised e, w')
      | None \<Rightarrow> (Returned (), w'\<lparr>in_flight := in_flight w' @ [(t, v)]\<rparr>))"

definition deliver :: "string \<times> bytes \<Rightarrow> (string \<Rightarrow> bytes list) \<Rightarrow> (string \<Rightarrow> bytes list)" where
  "deliver rec logs = logs(fst rec := logs (fst rec) @ [snd rec])"

definition producer_flush :: "faults \<Rightarrow> unit call" where
  "producer_flush f w =
     (let w' = emit Flush w in
      case flush_error f of
        Some e \<Rightarrow> (Raised e, w')
      | None \<Rightarrow>
          (Returned (),
           w'\<lparr>topics := (if delivery_error f = None
                          then fold deliver (in_flight w') (topics w')
                          else topics w'),
              in_flight := []\<rparr>))"

text \<open>A consumer: the messages it has still to hand out, and its idle timeout.\<close>

record consumer =
  pending :: "bytes list"
  idle_ms :: "nat option"

definition KafkaConsumer :: "faults \<Rightarrow> consumer_config \<Rightarrow> consumer call" where
  "KafkaConsumer f cfg w =
     (let w' = emit (NewConsumer cfg) w in
      case consumer_init_error f of
        Some e \<Rightarrow> (Raised e, w')
      | None \<Rightarrow>
          (Returned
             \<lparr>pending = (case auto_offset_reset cfg of
                            Earliest \<Rightarrow> topics w' (cfg_topic cfg)
                          | Latest \<Rightarrow> []),
              idle_ms = consumer_timeout_ms cfg\<rparr>,
           w'))"

text \<open>
  \<^verbatim>\<open>for message in consumer: body\<close>. Pull number \<open>k\<close> raises, hands out the next message,
  ends the iteration after the idle timeout, or blocks when there is no timeout.
\<close>

fun for_messages ::
  "faults \<Rightarrow> nat option \<Rightarrow> (bytes \<Rightarrow> unit call) \<Rightarrow> nat \<Rightarrow> bytes list \<Rightarrow> unit call" where
  "for_messages f idle body k [] w =
     (case poll_error f k of
        Some e \<Rightarrow> (Raised e, w)
      | None \<Rightarrow>
          (case idle of
             Some t \<Rightarrow> (Returned (), emit (IdleTimeout t) w)
           | None \<Rightarrow> (Blocked, w)))"
| "for_messages f idle body k (m # ms) w =
     (case poll_error f k of
        Some e \<Rightarrow> (Raised e, w)
      | None \<Rightarrow>
          (case body m (emit (Yield m) w) of
             (Returned u, w') \<Rightarrow> for_messages f idle body (Suc k) ms w'
           | (Raised e, w') \<Rightarrow> (Raised e, w')
           | (Blocked, w') \<Rightarrow> (Blocked, w')))"

section \<open>The program\<close>

definition produce_messages :: "faults \<Rightarrow> PublishResult option call" where
  "produce_messages f =
     then_do (KafkaProducer f ''localhost:9092'') (\<lambda>producer.
     let message = ''Hello, Kafka!'' in
     then_do (producer_send f ''test_topic'' message) (\<lambda>_.
     then_do (producer_flush f) (\<lambda>_.
     case decode_utf8 message of
       Inl e \<Rightarrow> (\<lambda>w. (Raised e, w))
     | Inr s \<Rightarrow>
         then_do (print (''Message sent successfully: '' @ s)) (\<lambda>_ w.
         (Returned None, w)))))"

definition consumer_settings :: consumer_config where
  "consumer_settings =
     \<lparr>cfg_topic = ''test_topic'', bootstrap_servers = ''localhost:9092'',
      auto_offset_reset = Earliest, consumer_timeout_ms = Some 5000\<rparr>"

definition received_body :: "bytes \<Rightarrow> unit call" where
  "received_body message =
     (case decode_utf8 message of
        Inl e \<Rightarrow> (\<lambda>w. (Raised e, w))
      | Inr s \<Rightarrow>
          then_do (print (''Received message: '' @ s)) (\<lambda>_.
          sleep 1))"

definition consume_messages :: "faults \<Rightarrow> unit call" where
  "consume_messages f =
     then_do (KafkaConsumer f consumer_settings) (\<lambda>consumer.
     for_messages f (idle_ms consumer) received_body 0 (pending consumer))"

definition main_body :: "faults \<Rightarrow> unit call" where
  "main_body f =
     then_do (produce_messages f) (\<lambda>_.
     then_do (sleep 2) (\<lambda>_.
     consume_messages f))"

definition main :: "faults \<Rightarrow> unit call" where
  "main f w =
     (case main_body f w of
        (Raised e, w') \<Rightarrow>
          (if is_KafkaError e
           then print (''An error occurred: '' @ str_of e) w'
           else print (''An unexpected error occurred: '' @ str_of e) w')
      | (Returned u, w') \<Rightarrow> (Returned u, w')
      | (Blocked, w') \<Rightarrow> (Blocked, w'))"

text \<open>
  The exit status of the interpreter: 0 when the script runs to its end, 1 when an
  exception leaves it; a blocked script has none.
\<close>

fun exit_status :: "unit outcome \<Rightarrow> nat option" where
  "exit_status (Returned u) = Some 0"
| "exit_status (Raised e) = Some 1"
| "exit_status Blocked = None"

section \<open>Reading a trace\<close>

fun stdout_of :: "event list \<Rightarrow> string list" where
  "stdout_of [] = []"
| "stdout_of (Print s # es) = s # stdout_of es"
| "stdout_of (ev # es) = stdout_of es"

fun received :: "event list \<Rightarrow> bytes list" where
  "received [] = []"
| "received (Yield m # es) = m # received es"
| "received (ev # es) = received es"

fun is_close :: "event \<Rightarrow> bool" where
  "is_close CloseProducer = True"
| "is_close CloseConsumer = True"
| "is_close ev = False"

fun consumer_event :: "event \<Rightarrow> bool" where
  "consumer_event (NewConsumer cfg) = True"
| "consumer_event (Yield m) = True"
| "consumer_event (IdleTimeout t) = True"
| "consumer_event ev = False"

text \<open>Time the program spends asleep or waiting idle, in milliseconds.\<close>

fun elapsed_ms :: "event list \<Rightarrow> nat" where
  "elapsed_ms [] = 0"
| "elapsed_ms (Sleep secs # es) = 1000 * secs + elapsed_ms es"
| "elapsed_ms (IdleTimeout t # es) = t + elapsed_ms es"
| "elapsed_ms (ev # es) = elapsed_ms es"

section \<open>Vocabulary of the statements\<close>

text \<open>What the loop of \<^verbatim>\<open>consume_messages\<close> does with one decodable message.\<close>

definition handled :: "bytes \<Rightarrow> event list" where
  "handled m = [Yield m, Print (''Received message: '' @ m), Sleep 1]"

text \<open>What \<^verbatim>\<open>produce_messages\<close> does when no call raises.\<close>

definition publish_events :: "event list" where
  "publish_events =
     [NewProducer ''localhost:9092'', Send ''test_topic'' ''Hello, Kafka!'', Flush,
      Print ''Message sent successfully: Hello, Kafka!'']"

text \<open>The line one of the two handlers of \<^verbatim>\<open>__main__\<close> prints for an exception.\<close>

definition error_line :: "py_exception \<Rightarrow> string" where
  "error_line e =
     (if is_KafkaError e then ''An error occurred: '' @ str_of e
      else ''An unexpected error occurred: '' @ str_of e)"

text \<open>Concrete runs: a broker with no retained message, and three failing conditions.\<close>

definition empty_logs :: "string \<Rightarrow> bytes list" where
  "empty_logs = (\<lambda>t. [])"

definition no_broker :: faults where
  "no_broker = no_faults\<lparr>producer_init_error := Some (KafkaError ''NoBrokersAvailable'')\<rparr>"

definition timed_out :: faults where
  "timed_out = no_faults\<lparr>flush_error := Some (KafkaError ''KafkaTimeoutError'')\<rparr>"

definition unreachable :: faults where
  "unreachable = no_faults\<lparr>send_error := Some (OtherException ''connection reset'')\<rparr>"

text \<open>The broker refuses the write; the second pull of the consumer loses the connection.\<close>

definition refused :: faults where
  "refused = no_faults\<lparr>delivery_error := Some (KafkaError ''MessageSizeTooLargeError'')\<rparr>"

definition lost_connection :: faults where
  "lost_connection =
     no_faults\<lparr>poll_error :=
       (\<lambda>k. if k = 1 then Some (KafkaError ''KafkaConnectionError'') else None)\<rparr>"

text \<open>
  The options the specification gives a Receiver (its section 4.2) and, following the
  specification's words, the sequence of payloads a Receiver with these options produces
  from the messages its topic retains, when nothing fails and no further traffic arrives:
  it starts at the oldest retained offset or sees only new messages, and \<open>max_messages\<close>
  is a hard cap on the length of the sequence. \<open>program_options\<close> are the options
  \<^verbatim>\<open>consume_messages\<close> passes on to its consumer; it has none for a cap.
\<close>

record receiver_options =
  from_earliest :: bool
  idle_timeout :: nat
  max_messages :: "nat option"

definition spec_receive :: "receiver_options \<Rightarrow> bytes list \<Rightarrow> bytes list" where
  "spec_receive opts retained =
     (let available = (if from_earliest opts then retained else []) in
      case max_messages opts of
        None \<Rightarrow> available
      | Some n \<Rightarrow> take n available)"

definition program_options :: receiver_options where
  "program_options = \<lparr>from_earliest = True, idle_timeout = 5000, max_messages = None\<rparr>"

section \<open>Facts about traces\<close>

lemmas run_defs =
  main_def main_body_def produce_messages_def consume_messages_def then_do_def
  KafkaProducer_def producer_send_def producer_flush_def KafkaConsumer_def print_def
  sleep_def emit_def boot_def no_faults_def decode_utf8_def decodable_def continuation_def
  consumer_settings_def received_body_def deliver_def Let_def empty_logs_def no_broker_def
  refused_def lost_connection_def second_byte_ok_def fault_text_def codec_text_def hex2_def
  digits_def decimal.simps

declare decimal.simps [simp del]

lemma stdout_of_append: "stdout_of (xs @ ys) = stdout_of xs @ stdout_of ys"
  by (induction xs rule: stdout_of.induct) simp_all

lemma received_append: "received (xs @ ys) = received xs @ received ys"
  by (induction xs rule: received.induct) simp_all

lemma elapsed_ms_append: "elapsed_ms (xs @ ys) = elapsed_ms xs + elapsed_ms ys"
  by (induction xs rule: elapsed_ms.induct) simp_all

lemma received_none: "\<not> list_ex consumer_event es \<Longrightarrow> received es = []"
  by (induction es rule: received.induct) simp_all

lemma received_handled: "received (concat (map handled ms)) = ms"
  by (induction ms) (simp_all add: handled_def)

lemma elapsed_ms_handled: "elapsed_ms (concat (map handled ms)) = 1000 * length ms"
  by (induction ms) (simp_all add: handled_def)

lemma stdout_of_handled:
  "stdout_of (concat (map handled ms)) = map (\<lambda>m. ''Received message: '' @ m) ms"
  by (induction ms) (simp_all add: handled_def)

lemma no_faults_simps:
  "producer_init_error no_faults = None" "send_error no_faults = None"
  "delivery_error no_faults = None" "flush_error no_faults = None"
  "consumer_init_error no_faults = None" "poll_error no_faults j = None"
  by (simp_all add: no_faults_def)

section \<open>The loop body and the loop\<close>

text \<open>The scan finds a fault exactly in the byte sequences that are not well-formed.\<close>

lemma utf8_scan_valid: "(utf8_scan p bs = None) = utf8_valid bs"
proof (induction p bs rule: utf8_scan.induct)
  case (1 p)
  show ?case by simp
next
  case (2 p b bs)
  show ?case
  proof (cases bs)
    case Nil
    with 2 show ?thesis
      by (simp del: utf8_scan.simps utf8_valid.simps
            add: utf8_scan.simps(1,2) [of p] utf8_scan.simps(2) [of p b] utf8_valid.simps(1)
              utf8_valid.simps(2) [of b])
  next
    case (Cons c1 r1)
    note bs = this
    show ?thesis
    proof (cases r1)
      case Nil
      with bs 2 show ?thesis
        by (auto simp del: utf8_scan.simps utf8_valid.simps
            simp add: utf8_scan.simps(1) utf8_valid.simps(1)
              utf8_scan.simps(2) [of p b] utf8_valid.simps(2) [of b]
              second_byte_ok_def continuation_def)
    next
      case (Cons c2 r2)
      note r1 = this
      show ?thesis
      proof (cases r2)
        case Nil
        with bs r1 2 show ?thesis
          by (auto simp del: utf8_scan.simps utf8_valid.simps
            simp add: utf8_scan.simps(1) utf8_valid.simps(1)
              utf8_scan.simps(2) [of p b] utf8_valid.simps(2) [of b]
              second_byte_ok_def continuation_def)
      next
        case (Cons c3 r3)
        with bs r1 2 show ?thesis
          by (auto simp del: utf8_scan.simps utf8_valid.simps
            simp add: utf8_scan.simps(1) utf8_valid.simps(1)
              utf8_scan.simps(2) [of p b] utf8_valid.simps(2) [of b]
              second_byte_ok_def continuation_def)
      qed
    qed
  qed
qed

lemma decode_utf8_ok: "decodable bs \<Longrightarrow> decode_utf8 bs = Inr bs"
  using utf8_scan_valid [of 0 "map of_char bs"] by (simp add: decode_utf8_def decodable_def)

lemma decode_utf8_raises:
  "decode_utf8 bs = Inl e \<Longrightarrow>
   \<not> decodable bs \<and> e = UnicodeDecodeError (str_of e) \<and> \<not> is_KafkaError e"
  using utf8_scan_valid [of 0 "map of_char bs"]
  by (auto simp: decode_utf8_def decodable_def split: option.splits)

lemma decode_utf8_bad: "\<not> decodable bs \<Longrightarrow> \<exists>t. decode_utf8 bs = Inl (UnicodeDecodeError t)"
  using utf8_scan_valid [of 0 "map of_char bs"]
  by (auto simp: decode_utf8_def decodable_def split: option.splits)

lemma hello_decodable: "decodable ''Hello, Kafka!''"
  by (simp add: decodable_def continuation_def)

lemma decode_hello: "decode_utf8 ''Hello, Kafka!'' = Inr ''Hello, Kafka!''"
  by (simp add: decode_utf8_ok hello_decodable)

lemma received_body_ok:
  "decodable m \<Longrightarrow>
   received_body m w =
     (Returned (), w\<lparr>trace := trace w @ [Print (''Received message: '' @ m), Sleep 1]\<rparr>)"
  by (simp add: received_body_def decode_utf8_ok then_do_def print_def sleep_def emit_def)

lemma received_body_bad:
  "decode_utf8 m = Inl e \<Longrightarrow> received_body m w = (Raised e, w)"
  by (simp add: received_body_def)

lemma received_body_not_blocked: "fst (received_body m w) \<noteq> Blocked"
  by (cases "decode_utf8 m") (simp_all add: received_body_def then_do_def print_def sleep_def)

lemma received_body_trace:
  "\<exists>es. trace (snd (received_body m w)) = trace w @ es \<and> \<not> list_ex is_close es"
  by (cases "decode_utf8 m")
    (simp_all add: received_body_def then_do_def print_def sleep_def emit_def)

text \<open>A consumer created without an idle timeout blocks once the topic is drained.\<close>

lemma for_messages_blocks:
  "poll_error f k = None \<Longrightarrow> fst (for_messages f None body k [] w) = Blocked"
  by simp

text \<open>With an idle timeout the loop never blocks, whatever the messages and the faults.\<close>

lemma for_messages_not_blocked:
  "fst (for_messages f (Some t) received_body k ms w) \<noteq> Blocked"
proof (induction ms arbitrary: k w)
  case Nil
  then show ?case by (simp split: option.splits)
next
  case (Cons m ms)
  have "fst (received_body m (emit (Yield m) w)) \<noteq> Blocked"
    by (rule received_body_not_blocked)
  with Cons show ?case
    by (auto split: option.splits outcome.splits prod.splits)
qed

text \<open>Without faults, decodable messages are all handled, in order.\<close>

lemma for_messages_all:
  "(\<And>j. poll_error f j = None) \<Longrightarrow> list_all decodable ms \<Longrightarrow>
   for_messages f (Some t) received_body k ms w =
     (Returned (), w\<lparr>trace := trace w @ concat (map handled ms) @ [IdleTimeout t]\<rparr>)"
proof (induction ms arbitrary: k w)
  case Nil
  then show ?case by (simp add: emit_def)
next
  case (Cons m ms)
  then show ?case
    by (simp add: received_body_ok emit_def handled_def)
qed

text \<open>The first message that does not decode ends the loop; the rest is never pulled.\<close>

lemma for_messages_stop:
  "(\<And>j. poll_error f j = None) \<Longrightarrow> list_all decodable pre \<Longrightarrow> decode_utf8 bad = Inl e \<Longrightarrow>
   for_messages f idle received_body k (pre @ bad # post) w =
     (Raised e, w\<lparr>trace := trace w @ concat (map handled pre) @ [Yield bad]\<rparr>)"
proof (induction pre arbitrary: k w)
  case Nil
  then show ?case by (simp add: received_body_bad emit_def)
next
  case (Cons m ms)
  then show ?case
    by (simp add: received_body_ok emit_def handled_def)
qed

text \<open>The loop only extends the trace, and never with a close.\<close>

lemma for_messages_trace:
  "\<exists>es. trace (snd (for_messages f idle received_body k ms w)) = trace w @ es
        \<and> \<not> list_ex is_close es"
proof (induction ms arbitrary: k w)
  case Nil
  then show ?case by (simp add: emit_def split: option.splits)
next
  case (Cons m ms)
  show ?case
  proof (cases "poll_error f k")
    case (Some e)
    then show ?thesis by simp
  next
    case None
    obtain es where es:
      "trace (snd (received_body m (emit (Yield m) w))) = trace w @ Yield m # es"
      "\<not> list_ex is_close es"
      using received_body_trace [of m "emit (Yield m) w"] by (auto simp: emit_def)
    show ?thesis
    proof (cases "received_body m (emit (Yield m) w)")
      case (Pair r w')
      with es have w': "trace w' = trace w @ Yield m # es" by simp
      show ?thesis
      proof (cases r)
        case (Returned u)
        obtain es' where
          "trace (snd (for_messages f idle received_body (Suc k) ms w')) = trace w' @ es'"
          "\<not> list_ex is_close es'"
          using Cons.IH [of "Suc k" w'] by blast
        with None Pair Returned w' es(2) show ?thesis by simp
      next
        case (Raised e)
        with None Pair w' es(2) show ?thesis by simp
      next
        case Blocked
        with None Pair w' es(2) show ?thesis by simp
      qed
    qed
  qed
qed

text \<open>The loop writes nothing to the broker.\<close>

lemma received_body_frame:
  "topics (snd (received_body m w)) = topics w
   \<and> in_flight (snd (received_body m w)) = in_flight w"
  by (cases "decode_utf8 m")
    (simp_all add: received_body_def then_do_def print_def sleep_def emit_def)

lemma for_messages_frame:
  "topics (snd (for_messages f idle received_body k ms w)) = topics w
   \<and> in_flight (snd (for_messages f idle received_body k ms w)) = in_flight w"
proof (induction ms arbitrary: k w)
  case Nil
  then show ?case by (simp add: emit_def split: option.splits)
next
  case (Cons m ms)
  show ?case
  proof (cases "poll_error f k")
    case (Some e)
    then show ?thesis by simp
  next
    case None
    show ?thesis
    proof (cases "received_body m (emit (Yield m) w)")
      case (Pair r w')
      with received_body_frame [of m "emit (Yield m) w"]
      have w': "topics w' = topics w" "in_flight w' = in_flight w"
        by (simp_all add: emit_def)
      show ?thesis
      proof (cases r)
        case (Returned u)
        with None Pair w' Cons.IH [of "Suc k" w'] show ?thesis by simp
      next
        case (Raised e)
        with None Pair w' show ?thesis by simp
      next
        case Blocked
        with None Pair w' show ?thesis by simp
      qed
    qed
  qed
qed

section \<open>The two phases\<close>

lemma produce_messages_ok:
  "producer_init_error f = None \<Longrightarrow> send_error f = None \<Longrightarrow> flush_error f = None \<Longrightarrow>
   produce_messages f w =
     (Returned None,
      w\<lparr>topics := (if delivery_error f = None
                     then fold deliver (in_flight w @ [(''test_topic'', ''Hello, Kafka!'')])
                            (topics w)
                     else topics w),
        in_flight := [],
        trace := trace w @ publish_events\<rparr>)"
  by (simp add: Let_def produce_messages_def then_do_def KafkaProducer_def producer_send_def
      producer_flush_def print_def emit_def decode_hello publish_events_def)

lemma produce_messages_result:
  "fst (produce_messages f w) =
     (case producer_init_error f of
        Some e \<Rightarrow> Raised e
      | None \<Rightarrow>
          (case send_error f of
             Some e \<Rightarrow> Raised e
           | None \<Rightarrow>
               (case flush_error f of
                  Some e \<Rightarrow> Raised e
                | None \<Rightarrow> Returned None)))"
  by (simp add: Let_def produce_messages_def then_do_def KafkaProducer_def producer_send_def
      producer_flush_def print_def emit_def decode_hello split: option.splits)

lemma produce_messages_outcomes:
  "(\<exists>e. fst (produce_messages f w) = Raised e) \<or> fst (produce_messages f w) = Returned None"
  by (simp add: produce_messages_result split: option.splits)

lemma produce_messages_raised:
  assumes "fst (produce_messages f w) = Raised e"
  shows "\<exists>es. trace (snd (produce_messages f w)) = trace w @ es
      \<and> stdout_of es = [] \<and> \<not> list_ex consumer_event es \<and> \<not> list_ex is_close es"
proof (cases "producer_init_error f")
  case (Some a)
  then show ?thesis
    by (simp add: Let_def produce_messages_def then_do_def KafkaProducer_def emit_def)
next
  case None
  note init = this
  show ?thesis
  proof (cases "send_error f")
    case (Some a)
    with init show ?thesis
      by (simp add: Let_def produce_messages_def then_do_def KafkaProducer_def
          producer_send_def emit_def)
  next
    case None
    note send = this
    show ?thesis
    proof (cases "flush_error f")
      case (Some a)
      with init send show ?thesis
        by (simp add: Let_def produce_messages_def then_do_def KafkaProducer_def
            producer_send_def producer_flush_def emit_def)
    next
      case None
      with init send assms show ?thesis
        by (simp add: produce_messages_result)
    qed
  qed
qed

lemma consume_messages_trace:
  "\<exists>es. trace (snd (consume_messages f w)) = trace w @ NewConsumer consumer_settings # es
      \<and> \<not> list_ex is_close es"
proof (cases "consumer_init_error f")
  case (Some e)
  then show ?thesis
    by (simp add: consume_messages_def then_do_def KafkaConsumer_def emit_def)
next
  case None
  obtain es where
    "trace (snd (for_messages f (Some 5000) received_body 0 (topics w ''test_topic'')
        (emit (NewConsumer consumer_settings) w))) =
      trace (emit (NewConsumer consumer_settings) w) @ es" "\<not> list_ex is_close es"
    using for_messages_trace by blast
  with None show ?thesis
    by (simp add: consume_messages_def then_do_def KafkaConsumer_def emit_def
        consumer_settings_def)
qed

lemma consume_messages_not_blocked: "fst (consume_messages f w) \<noteq> Blocked"
proof (cases "consumer_init_error f")
  case (Some e)
  then show ?thesis
    by (simp add: consume_messages_def then_do_def KafkaConsumer_def emit_def)
next
  case None
  then show ?thesis
    using for_messages_not_blocked
    by (simp add: consume_messages_def then_do_def KafkaConsumer_def emit_def
        consumer_settings_def)
qed

lemma consume_messages_all:
  assumes "consumer_init_error f = None" and "\<And>j. poll_error f j = None"
    and "list_all decodable (topics w ''test_topic'')"
  shows "consume_messages f w =
     (Returned (),
      w\<lparr>trace := trace w @ NewConsumer consumer_settings #
          concat (map handled (topics w ''test_topic'')) @ [IdleTimeout 5000]\<rparr>)"
proof -
  have "for_messages f (Some 5000) received_body 0 (topics w ''test_topic'')
          (emit (NewConsumer consumer_settings) w) =
        (Returned (), (emit (NewConsumer consumer_settings) w)
           \<lparr>trace := trace (emit (NewConsumer consumer_settings) w) @
              concat (map handled (topics w ''test_topic'')) @ [IdleTimeout 5000]\<rparr>)"
    using assms(2,3) by (rule for_messages_all)
  with assms(1) show ?thesis
    by (simp add: consume_messages_def then_do_def KafkaConsumer_def emit_def
        consumer_settings_def)
qed

lemma consume_messages_stop:
  assumes "consumer_init_error f = None" and "\<And>j. poll_error f j = None"
    and "list_all decodable pre" and "decode_utf8 bad = Inl e"
    and "topics w ''test_topic'' = pre @ bad # post"
  shows "consume_messages f w =
     (Raised e,
      w\<lparr>trace := trace w @ NewConsumer consumer_settings #
          concat (map handled pre) @ [Yield bad]\<rparr>)"
proof -
  have "for_messages f (Some 5000) received_body 0 (pre @ bad # post)
          (emit (NewConsumer consumer_settings) w) =
        (Raised e, (emit (NewConsumer consumer_settings) w)
           \<lparr>trace := trace (emit (NewConsumer consumer_settings) w) @
              concat (map handled pre) @ [Yield bad]\<rparr>)"
    using assms(2,3,4) by (rule for_messages_stop)
  with assms(1,5) show ?thesis
    by (simp add: consume_messages_def then_do_def KafkaConsumer_def emit_def
        consumer_settings_def)
qed

lemma consume_messages_frame:
  "topics (snd (consume_messages f w)) = topics w
   \<and> in_flight (snd (consume_messages f w)) = in_flight w"
proof (cases "consumer_init_error f")
  case (Some e)
  then show ?thesis
    by (simp add: consume_messages_def then_do_def KafkaConsumer_def emit_def)
next
  case None
  with for_messages_frame [of f "Some 5000" 0 "topics w ''test_topic''"
      "emit (NewConsumer consumer_settings) w"]
  show ?thesis
    by (simp add: consume_messages_def then_do_def KafkaConsumer_def emit_def
        consumer_settings_def)
qed

section \<open>The whole script\<close>

lemma main_body_raised_early:
  "fst (produce_messages f w) = Raised e \<Longrightarrow>
   main_body f w = (Raised e, snd (produce_messages f w))"
  by (cases "produce_messages f w") (simp add: main_body_def then_do_def)

lemma main_body_returned:
  "produce_messages f w = (Returned r, w') \<Longrightarrow>
   main_body f w = consume_messages f (emit (Sleep 2) w')"
  by (simp add: main_body_def then_do_def sleep_def)

lemma main_body_not_blocked: "fst (main_body f w) \<noteq> Blocked"
proof (cases "produce_messages f w")
  case (Pair r w')
  show ?thesis
  proof (cases r)
    case (Returned u)
    with Pair show ?thesis
      by (simp add: main_body_returned consume_messages_not_blocked)
  next
    case (Raised e)
    with Pair show ?thesis by (simp add: main_body_raised_early)
  next
    case Blocked
    with Pair have "fst (produce_messages f w) = Blocked" by simp
    then show ?thesis
      by (simp add: produce_messages_result split: option.splits)
  qed
qed

lemma main_body_early_trace:
  assumes "fst (produce_messages f w) = Raised e"
  shows "\<exists>es. trace (snd (main_body f w)) = trace w @ es
      \<and> stdout_of es = [] \<and> \<not> list_ex consumer_event es \<and> \<not> list_ex is_close es"
  using produce_messages_raised [OF assms] by (simp add: main_body_raised_early [OF assms])

lemma main_body_late_trace:
  assumes "fst (produce_messages f w) = Returned r"
  shows "\<exists>es. trace (snd (main_body f w)) =
        trace w @ publish_events @ Sleep 2 # NewConsumer consumer_settings # es
      \<and> \<not> list_ex is_close es"
proof -
  from assms have e: "producer_init_error f = None" "send_error f = None" "flush_error f = None"
    by (simp_all add: produce_messages_result split: option.splits)
  obtain w' where p: "produce_messages f w = (Returned None, w')"
    and t: "trace w' = trace w @ publish_events"
    by (simp add: produce_messages_ok [OF e])
  obtain es where
    "trace (snd (consume_messages f (emit (Sleep 2) w'))) =
       trace (emit (Sleep 2) w') @ NewConsumer consumer_settings # es"
    "\<not> list_ex is_close es"
    using consume_messages_trace by blast
  then show ?thesis
    by (simp add: main_body_returned [OF p] t emit_def)
qed

lemma main_body_normal:
  assumes "list_all decodable (logs ''test_topic'')"
  shows "main_body no_faults (boot logs) =
     (Returned (),
      \<lparr>topics = logs(''test_topic'' := logs ''test_topic'' @ [''Hello, Kafka!'']),
       in_flight = [],
       trace = publish_events @ Sleep 2 # NewConsumer consumer_settings #
          concat (map handled (logs ''test_topic'' @ [''Hello, Kafka!''])) @
          [IdleTimeout 5000]\<rparr>)"
proof -
  let ?w1 = "\<lparr>topics = logs(''test_topic'' := logs ''test_topic'' @ [''Hello, Kafka!'']),
       in_flight = [], trace = publish_events\<rparr>"
  have p: "produce_messages no_faults (boot logs) = (Returned None, ?w1)"
    by (simp add: produce_messages_ok no_faults_simps boot_def deliver_def)
  have d: "list_all decodable (topics (emit (Sleep 2) ?w1) ''test_topic'')"
    using assms by (simp add: emit_def hello_decodable)
  have "consume_messages no_faults (emit (Sleep 2) ?w1) =
     (Returned (),
      (emit (Sleep 2) ?w1)\<lparr>trace := trace (emit (Sleep 2) ?w1) @
          NewConsumer consumer_settings #
          concat (map handled (topics (emit (Sleep 2) ?w1) ''test_topic'')) @
          [IdleTimeout 5000]\<rparr>)"
    using d by (intro consume_messages_all) (simp_all add: no_faults_simps)
  then show ?thesis
    by (simp add: main_body_returned [OF p] emit_def)
qed

lemma main_raised:
  "main_body f w = (Raised e, w') \<Longrightarrow>
   main f w = (Returned (), w'\<lparr>trace := trace w' @ [Print (error_line e)]\<rparr>)"
  by (simp add: main_def print_def emit_def error_line_def)

lemma main_returned:
  "main_body f w = (Returned u, w') \<Longrightarrow> main f w = (Returned u, w')"
  by (simp add: main_def)

lemma main_trace:
  "\<exists>tail. trace (snd (main f w)) = trace (snd (main_body f w)) @ tail
      \<and> \<not> list_ex is_close tail \<and> \<not> list_ex consumer_event tail"
proof (cases "main_body f w")
  case (Pair r w')
  then show ?thesis
    by (cases r) (simp_all add: main_def print_def emit_def)
qed

lemma main_result: "fst (main f w) = Returned ()"
proof (cases "main_body f w")
  case (Pair r w')
  with main_body_not_blocked [of f w] show ?thesis
    by (cases r) (simp_all add: main_def print_def)
qed

lemma main_frame:
  "topics (snd (main f w)) = topics (snd (main_body f w))
   \<and> in_flight (snd (main f w)) = in_flight (snd (main_body f w))"
proof (cases "main_body f w")
  case (Pair r w')
  then show ?thesis
    by (cases r) (simp_all add: main_def print_def emit_def)
qed

lemma main_body_late_frame:
  assumes "fst (produce_messages f (boot logs)) = Returned r"
  shows "in_flight (snd (main_body f (boot logs))) = []
     \<and> topics (snd (main_body f (boot logs))) ''test_topic'' =
         (if delivery_error f = None then logs ''test_topic'' @ [''Hello, Kafka!'']
          else logs ''test_topic'')"
proof -
  from assms have e: "producer_init_error f = None" "send_error f = None" "flush_error f = None"
    by (simp_all add: produce_messages_result split: option.splits)
  obtain w' where p: "produce_messages f (boot logs) = (Returned None, w')"
    and t: "in_flight w' = []" "topics w' ''test_topic'' =
         (if delivery_error f = None then logs ''test_topic'' @ [''Hello, Kafka!'']
          else logs ''test_topic'')"
    by (simp add: produce_messages_ok [OF e] boot_def deliver_def)
  from consume_messages_frame [of f "emit (Sleep 2) w'"] t show ?thesis
    by (simp add: main_body_returned [OF p] emit_def)
qed

lemma consume_messages_elapsed:
  assumes "list_all decodable (logs ''test_topic'')"
  shows "elapsed_ms (trace (snd (consume_messages no_faults (boot logs)))) =
     1000 * length (logs ''test_topic'') + 5000"
proof -
  have c: "consume_messages no_faults (boot logs) =
     (Returned (),
      (boot logs)\<lparr>trace := trace (boot logs) @ NewConsumer consumer_settings #
          concat (map handled (topics (boot logs) ''test_topic'')) @ [IdleTimeout 5000]\<rparr>)"
    using assms by (intro consume_messages_all) (simp_all add: no_faults_simps boot_def)
  show ?thesis
    unfolding c by (simp add: boot_def elapsed_ms_append elapsed_ms_handled)
qed

lemma replicate_decodable: "list_all decodable (replicate n ''a'')"
  by (induction n) (simp_all add: decodable_def)

lemma main_body_stop:
  assumes "list_all decodable pre" and "decode_utf8 bad = Inl e"
    and "logs ''test_topic'' = pre @ bad # post"
  shows "main_body no_faults (boot logs) =
     (Raised e,
      \<lparr>topics = logs(''test_topic'' := logs ''test_topic'' @ [''Hello, Kafka!'']),
       in_flight = [],
       trace = publish_events @ Sleep 2 # NewConsumer consumer_settings #
          concat (map handled pre) @ [Yield bad]\<rparr>)"
proof -
  let ?w1 = "\<lparr>topics = logs(''test_topic'' := logs ''test_topic'' @ [''Hello, Kafka!'']),
       in_flight = [], trace = publish_events\<rparr>"
  have p: "produce_messages no_faults (boot logs) = (Returned None, ?w1)"
    by (simp add: produce_messages_ok no_faults_simps boot_def deliver_def)
  have t: "topics (emit (Sleep 2) ?w1) ''test_topic'' = pre @ bad # (post @ [''Hello, Kafka!''])"
    using assms(3) by (simp add: emit_def)
  have "consume_messages no_faults (emit (Sleep 2) ?w1) =
     (Raised e,
      (emit (Sleep 2) ?w1)\<lparr>trace := trace (emit (Sleep 2) ?w1) @
          NewConsumer consumer_settings # concat (map handled pre) @ [Yield bad]\<rparr>)"
    using assms(1,2) t by (intro consume_messages_stop) (simp_all add: no_faults_simps)
  then show ?thesis
    by (simp add: main_body_returned [OF p] emit_def)
qed

section \<open>Properties of the program\<close>

subsection \<open>Round trip\<close>

text \<open>
  C1. Under no-failure conditions, when every message the topic already retains decodes,
  a run receives the retained messages of \<^verbatim>\<open>test_topic\<close> in order, followed by the
  payload it has just published, and then the sequence ends on the idle timeout of
  5000 ms. The payload \<^verbatim>\<open>b'Hello, Kafka!'\<close> is observed once more often than the topic
  retained it before the run: exactly once, as the only message, on a topic that was
  empty.
\<close>

theorem round_trip:
  assumes "list_all decodable (logs ''test_topic'')"
  shows "fst (main no_faults (boot logs)) = Returned ()
     \<and> received (trace (snd (main no_faults (boot logs)))) =
         logs ''test_topic'' @ [''Hello, Kafka!'']
     \<and> count_list (received (trace (snd (main no_faults (boot logs))))) ''Hello, Kafka!'' =
         count_list (logs ''test_topic'') ''Hello, Kafka!'' + 1
     \<and> last (trace (snd (main no_faults (boot logs)))) = IdleTimeout 5000"
proof -
  have b: "main_body no_faults (boot logs) =
     (Returned (),
      \<lparr>topics = logs(''test_topic'' := logs ''test_topic'' @ [''Hello, Kafka!'']),
       in_flight = [],
       trace = publish_events @ Sleep 2 # NewConsumer consumer_settings #
          concat (map handled (logs ''test_topic'' @ [''Hello, Kafka!''])) @
          [IdleTimeout 5000]\<rparr>)"
    using assms by (rule main_body_normal)
  have m: "main no_faults (boot logs) = main_body no_faults (boot logs)"
    by (simp add: main_returned [OF b] b)
  have r: "received (trace (snd (main no_faults (boot logs)))) =
      logs ''test_topic'' @ [''Hello, Kafka!'']"
    unfolding m b
    by (simp add: received_append received_handled publish_events_def
        del: map_append concat_append)
  show ?thesis
    using r by (simp add: m b)
qed

text \<open>On an empty topic the run receives exactly the one message.\<close>

theorem round_trip_witness:
  "fst (main no_faults (boot empty_logs)) = Returned ()
     \<and> received (trace (snd (main no_faults (boot empty_logs)))) = [''Hello, Kafka!'']
     \<and> count_list (received (trace (snd (main no_faults (boot empty_logs)))))
          ''Hello, Kafka!'' = 1
     \<and> last (trace (snd (main no_faults (boot empty_logs)))) = IdleTimeout 5000"
  using round_trip [of empty_logs] by (simp add: empty_logs_def)

text \<open>
  A second run of the program finds the message of the first run on the topic: the
  consumer reads from the earliest offset and has no group, so the payload arrives twice.
\<close>

theorem round_trip_counterexample:
  "received (trace (snd (main no_faults
      (boot (empty_logs(''test_topic'' := [''Hello, Kafka!'']))))))
     = [''Hello, Kafka!'', ''Hello, Kafka!'']
   \<and> count_list (received (trace (snd (main no_faults
         (boot (empty_logs(''test_topic'' := [''Hello, Kafka!''])))))))  ''Hello, Kafka!'' \<noteq> 1"
  by (simp add: run_defs)

subsection \<open>Failure of the publish phase\<close>

text \<open>
  C2. \<^verbatim>\<open>produce_messages\<close> builds no result value. When the construction of the producer,
  \<^verbatim>\<open>send\<close> or \<^verbatim>\<open>flush\<close> raises, the first exception raised leaves \<^verbatim>\<open>produce_messages\<close> as
  it is; otherwise the function returns \<^verbatim>\<open>None\<close>.
\<close>

theorem publish_outcome:
  "fst (produce_messages f w) =
     (case producer_init_error f of
        Some e \<Rightarrow> Raised e
      | None \<Rightarrow>
          (case send_error f of
             Some e \<Rightarrow> Raised e
           | None \<Rightarrow>
               (case flush_error f of
                  Some e \<Rightarrow> Raised e
                | None \<Rightarrow> Returned None)))"
  by (rule produce_messages_result)

text \<open>With no broker to reach, the exception escapes: no value is returned.\<close>

theorem publish_raises_counterexample:
  "fst (produce_messages no_broker (boot empty_logs)) =
     Raised (KafkaError ''NoBrokersAvailable'')
   \<and> (\<forall>r. fst (produce_messages no_broker (boot empty_logs)) \<noteq> Returned r)"
  by (simp add: produce_messages_result no_broker_def no_faults_def)

subsection \<open>The receive loop ends\<close>

text \<open>
  C3. \<^verbatim>\<open>consume_messages\<close> never blocks for ever, under any conditions: its consumer is
  always created with the idle timeout \<^verbatim>\<open>consumer_timeout_ms=5000\<close>. With no failure and no
  further traffic it hands out exactly the messages the topic already retains, and its
  last step is the idle wait of 5000 ms. The loop also sleeps one second after each
  message, so the time it takes is the idle timeout plus 1000 ms for each buffered
  message: an overhead that grows with the number of buffered messages.
\<close>

theorem receive_terminates:
  "fst (consume_messages f w) \<noteq> Blocked
   \<and> (list_all decodable (logs ''test_topic'') \<longrightarrow>
        fst (consume_messages no_faults (boot logs)) = Returned ()
      \<and> received (trace (snd (consume_messages no_faults (boot logs)))) = logs ''test_topic''
      \<and> last (trace (snd (consume_messages no_faults (boot logs)))) = IdleTimeout 5000
      \<and> elapsed_ms (trace (snd (consume_messages no_faults (boot logs)))) =
          1000 * length (logs ''test_topic'') + 5000)"
proof (intro conjI impI)
  show "fst (consume_messages f w) \<noteq> Blocked"
    by (rule consume_messages_not_blocked)
next
  assume d: "list_all decodable (logs ''test_topic'')"
  have c: "consume_messages no_faults (boot logs) =
     (Returned (),
      (boot logs)\<lparr>trace := trace (boot logs) @ NewConsumer consumer_settings #
          concat (map handled (topics (boot logs) ''test_topic'')) @ [IdleTimeout 5000]\<rparr>)"
    using d by (intro consume_messages_all) (simp_all add: no_faults_simps boot_def)
  show "fst (consume_messages no_faults (boot logs)) = Returned ()"
    by (simp add: c)
  show "received (trace (snd (consume_messages no_faults (boot logs)))) = logs ''test_topic''"
    unfolding c by (simp add: boot_def received_append received_handled)
  show "last (trace (snd (consume_messages no_faults (boot logs)))) = IdleTimeout 5000"
    unfolding c by (simp add: boot_def)
  show "elapsed_ms (trace (snd (consume_messages no_faults (boot logs)))) =
          1000 * length (logs ''test_topic'') + 5000"
    unfolding c by (simp add: boot_def elapsed_ms_append elapsed_ms_handled)
qed

text \<open>
  A connection lost on the second pull does not block the loop; two buffered messages are
  both handed out, and the loop ends after 7000 ms.
\<close>

theorem receive_terminates_witness:
  "fst (consume_messages lost_connection
        (boot (empty_logs(''test_topic'' := [''a'', ''b''])))) \<noteq> Blocked
   \<and> fst (consume_messages no_faults
        (boot (empty_logs(''test_topic'' := [''a'', ''b''])))) = Returned ()
   \<and> received (trace (snd (consume_messages no_faults
        (boot (empty_logs(''test_topic'' := [''a'', ''b'']))))))
       = [''a'', ''b'']
   \<and> last (trace (snd (consume_messages no_faults
        (boot (empty_logs(''test_topic'' := [''a'', ''b'']))))))
       = IdleTimeout 5000
   \<and> elapsed_ms (trace (snd (consume_messages no_faults
        (boot (empty_logs(''test_topic'' := [''a'', ''b'']))))))
       = 7000"
proof -
  have d: "list_all decodable ((empty_logs(''test_topic'' := [''a'', ''b''])) ''test_topic'')"
    by (simp add: decodable_def)
  from receive_terminates [of lost_connection
      "boot (empty_logs(''test_topic'' := [''a'', ''b'']))"
      "empty_logs(''test_topic'' := [''a'', ''b''])"] d
  show ?thesis by simp
qed

text \<open>
  No bound on the overhead holds for all runs without failure: with \<open>n\<close> buffered
  messages the loop takes \<open>1000 * n\<close> ms more than the idle timeout.
\<close>

theorem receive_overhead_counterexample:
  "\<not> (\<exists>B. \<forall>n. elapsed_ms (trace (snd (consume_messages no_faults
        (boot (empty_logs(''test_topic'' := replicate n ''a''))))))
      \<le> 5000 + B)"
proof
  assume "\<exists>B. \<forall>n. elapsed_ms (trace (snd (consume_messages no_faults
        (boot (empty_logs(''test_topic'' := replicate n ''a''))))))
      \<le> 5000 + B"
  then obtain B where b: "\<forall>n. elapsed_ms (trace (snd (consume_messages no_faults
        (boot (empty_logs(''test_topic'' := replicate n ''a''))))))
      \<le> 5000 + B"
    by blast
  have "list_all decodable
      ((empty_logs(''test_topic'' := replicate (Suc B) ''a'')) ''test_topic'')"
    by (simp add: replicate_decodable del: replicate_Suc)
  then have "elapsed_ms (trace (snd (consume_messages no_faults
        (boot (empty_logs(''test_topic'' := replicate (Suc B) ''a'')))))) =
      1000 * length ((empty_logs(''test_topic'' := replicate (Suc B) ''a'')) ''test_topic'')
        + 5000"
    by (rule consume_messages_elapsed)
  with b [rule_format, of "Suc B"] show False
    by simp
qed

subsection \<open>Success of the publish phase\<close>

text \<open>
  C4. A successful \<^verbatim>\<open>produce_messages\<close> returns \<^verbatim>\<open>None\<close>: no delivered flag and no offset.
  It has constructed the producer, sent, flushed and printed
  \<^verbatim>\<open>Message sent successfully: Hello, Kafka!\<close>, in this order, and the payload is the last
  retained message of \<^verbatim>\<open>test_topic\<close> unless the broker refused the write.
\<close>

theorem publish_success:
  assumes "fst (produce_messages f (boot logs)) = Returned r"
  shows "r = None
     \<and> trace (snd (produce_messages f (boot logs))) =
         [NewProducer ''localhost:9092'', Send ''test_topic'' ''Hello, Kafka!'', Flush,
          Print ''Message sent successfully: Hello, Kafka!'']
     \<and> topics (snd (produce_messages f (boot logs))) ''test_topic'' =
         (if delivery_error f = None then logs ''test_topic'' @ [''Hello, Kafka!'']
          else logs ''test_topic'')"
proof -
  from assms have e: "producer_init_error f = None" "send_error f = None" "flush_error f = None"
    by (simp_all add: produce_messages_result split: option.splits)
  from assms have "r = None"
    by (simp add: produce_messages_result e)
  then show ?thesis
    by (simp add: produce_messages_ok [OF e] boot_def deliver_def publish_events_def)
qed

theorem publish_success_witness:
  "fst (produce_messages no_faults (boot empty_logs)) = Returned None
     \<and> trace (snd (produce_messages no_faults (boot empty_logs))) =
         [NewProducer ''localhost:9092'', Send ''test_topic'' ''Hello, Kafka!'', Flush,
          Print ''Message sent successfully: Hello, Kafka!'']
     \<and> topics (snd (produce_messages no_faults (boot empty_logs))) ''test_topic'' =
         [''Hello, Kafka!'']"
proof -
  have r: "fst (produce_messages no_faults (boot empty_logs)) = Returned None"
    by (simp add: produce_messages_result no_faults_def)
  from publish_success [OF r] r show ?thesis
    by (simp add: no_faults_def empty_logs_def)
qed

text \<open>The successful publish returns no record with a delivered flag and an offset.\<close>

theorem publish_result_counterexample:
  "\<not> (\<exists>r. fst (produce_messages no_faults (boot empty_logs)) = Returned (Some r)
        \<and> delivered r \<and> (\<exists>n. offset r = Some n \<and> 0 \<le> n))"
  by (simp add: produce_messages_result no_faults_def)

subsection \<open>No cap on the number of messages\<close>

text \<open>
  C5. \<^verbatim>\<open>consume_messages\<close> has no option for a cap and no cap on the length of its
  sequence: when the consumer raises nothing and every retained message decodes, it hands
  out every message the topic retains, as many as there are, and stops only on the idle
  timeout that follows the last of them. Its sequence is the one the specification gives
  a Receiver without \<open>max_messages\<close>.
\<close>

theorem no_message_cap:
  assumes "consumer_init_error f = None" and "poll_error f = (\<lambda>k. None)"
    and "list_all decodable (topics w ''test_topic'')"
  shows "fst (consume_messages f w) = Returned ()
     \<and> trace (snd (consume_messages f w)) =
         trace w @ NewConsumer consumer_settings #
           concat (map handled (topics w ''test_topic'')) @ [IdleTimeout 5000]
     \<and> received (drop (length (trace w)) (trace (snd (consume_messages f w)))) =
         topics w ''test_topic''
     \<and> length (received (drop (length (trace w)) (trace (snd (consume_messages f w))))) =
         length (topics w ''test_topic'')
     \<and> received (drop (length (trace w)) (trace (snd (consume_messages f w)))) =
         spec_receive program_options (topics w ''test_topic'')"
proof -
  have c: "consume_messages f w =
     (Returned (),
      w\<lparr>trace := trace w @ NewConsumer consumer_settings #
          concat (map handled (topics w ''test_topic'')) @ [IdleTimeout 5000]\<rparr>)"
    using assms by (intro consume_messages_all) simp_all
  show ?thesis
    by (simp add: c received_append received_handled spec_receive_def program_options_def)
qed

text \<open>
  Four retained messages: each is yielded, printed and slept on, and only then does the
  idle timeout end the loop.
\<close>

theorem no_message_cap_witness:
  "fst (consume_messages no_faults
      (boot (empty_logs(''test_topic'' := [''a'', ''b'', ''c'', ''d''])))) = Returned ()
   \<and> trace (snd (consume_messages no_faults
        (boot (empty_logs(''test_topic'' := [''a'', ''b'', ''c'', ''d''])))))
      = [NewConsumer consumer_settings,
         Yield ''a'', Print ''Received message: a'', Sleep 1,
         Yield ''b'', Print ''Received message: b'', Sleep 1,
         Yield ''c'', Print ''Received message: c'', Sleep 1,
         Yield ''d'', Print ''Received message: d'', Sleep 1,
         IdleTimeout 5000]
   \<and> received (trace (snd (consume_messages no_faults
        (boot (empty_logs(''test_topic'' := [''a'', ''b'', ''c'', ''d'']))))))
      = [''a'', ''b'', ''c'', ''d'']"
proof -
  let ?w = "boot (empty_logs(''test_topic'' := [''a'', ''b'', ''c'', ''d'']))"
  have a: "consumer_init_error no_faults = None" "poll_error no_faults = (\<lambda>k. None)"
    by (simp_all add: no_faults_def)
  have d: "list_all decodable (topics ?w ''test_topic'')"
    by (simp add: boot_def decodable_def)
  from no_message_cap [OF a d] show ?thesis
    by (simp add: boot_def handled_def)
qed

text \<open>
  The specification's Receiver with \<open>max_messages = 3\<close> produces three elements from
  four retained messages; the program's receiver, which cannot be given that option,
  produces all four.
\<close>

theorem no_message_cap_counterexample:
  "spec_receive \<lparr>from_earliest = True, idle_timeout = 5000, max_messages = Some 3\<rparr>
      [''a'', ''b'', ''c'', ''d''] = [''a'', ''b'', ''c'']
   \<and> received (trace (snd (consume_messages no_faults
        (boot (empty_logs(''test_topic'' := [''a'', ''b'', ''c'', ''d'']))))))
      = [''a'', ''b'', ''c'', ''d'']
   \<and> length (received (trace (snd (consume_messages no_faults
        (boot (empty_logs(''test_topic'' := [''a'', ''b'', ''c'', ''d''])))))))
      \<noteq> 3"
  by (simp add: run_defs spec_receive_def)

subsection \<open>Order of the two phases\<close>

text \<open>
  C6. In every run in which the consumer does anything at all, the program has first
  constructed the producer, sent the message, flushed and reported the send, and has
  then slept for two seconds: the construction of the consumer is the sixth step, right
  after that delay. By then \<^verbatim>\<open>flush\<close> has returned, so no record is in flight any more.
  The program never looks at the future that \<^verbatim>\<open>send\<close> returns, so this is not an
  acknowledgement of the broker: the message is retained on the topic unless the broker
  refused the write.
\<close>

theorem publish_precedes_receive:
  assumes "list_ex consumer_event (trace (snd (main f (boot logs))))"
  shows "take 6 (trace (snd (main f (boot logs)))) =
     [NewProducer ''localhost:9092'', Send ''test_topic'' ''Hello, Kafka!'', Flush,
      Print ''Message sent successfully: Hello, Kafka!'', Sleep 2,
      NewConsumer consumer_settings]
   \<and> in_flight (snd (main f (boot logs))) = []
   \<and> topics (snd (main f (boot logs))) ''test_topic'' =
       (if delivery_error f = None then logs ''test_topic'' @ [''Hello, Kafka!'']
        else logs ''test_topic'')"
proof -
  obtain tail where tail: "trace (snd (main f (boot logs))) =
      trace (snd (main_body f (boot logs))) @ tail" "\<not> list_ex consumer_event tail"
    using main_trace by blast
  show ?thesis
  proof (cases "fst (produce_messages f (boot logs)) = Returned None")
    case True
    then obtain es where "trace (snd (main_body f (boot logs))) =
        trace (boot logs) @ publish_events @ Sleep 2 # NewConsumer consumer_settings # es"
      using main_body_late_trace by blast
    with tail(1) main_body_late_frame [OF True] show ?thesis
      by (simp add: boot_def publish_events_def main_frame)
  next
    case False
    with produce_messages_outcomes [of f "boot logs"]
    obtain e where "fst (produce_messages f (boot logs)) = Raised e" by blast
    then obtain es where "trace (snd (main_body f (boot logs))) = trace (boot logs) @ es"
      "\<not> list_ex consumer_event es"
      using main_body_early_trace by blast
    with tail assms show ?thesis
      by (simp add: boot_def)
  qed
qed

text \<open>The run without failures, on an empty topic.\<close>

theorem publish_precedes_receive_witness:
  "list_ex consumer_event (trace (snd (main no_faults (boot empty_logs))))
   \<and> take 6 (trace (snd (main no_faults (boot empty_logs)))) =
     [NewProducer ''localhost:9092'', Send ''test_topic'' ''Hello, Kafka!'', Flush,
      Print ''Message sent successfully: Hello, Kafka!'', Sleep 2,
      NewConsumer consumer_settings]
   \<and> in_flight (snd (main no_faults (boot empty_logs))) = []
   \<and> topics (snd (main no_faults (boot empty_logs))) ''test_topic'' = [''Hello, Kafka!'']"
proof -
  have h: "list_ex consumer_event (trace (snd (main no_faults (boot empty_logs))))"
    by (simp add: run_defs)
  from publish_precedes_receive [OF h] h show ?thesis
    by (simp add: no_faults_def empty_logs_def)
qed

text \<open>
  When the broker refuses the write, \<^verbatim>\<open>flush\<close> still returns: the success line is printed
  and the consumer starts, although the broker has acknowledged nothing and the topic
  retains nothing.
\<close>

theorem acknowledgement_counterexample:
  "take 6 (trace (snd (main refused (boot empty_logs)))) =
     [NewProducer ''localhost:9092'', Send ''test_topic'' ''Hello, Kafka!'', Flush,
      Print ''Message sent successfully: Hello, Kafka!'', Sleep 2,
      NewConsumer consumer_settings]
   \<and> topics (snd (main refused (boot empty_logs))) ''test_topic'' = []
   \<and> received (trace (snd (main refused (boot empty_logs)))) = []"
  by (simp add: run_defs)

subsection \<open>Sessions are never closed\<close>

text \<open>
  C7. Neither \<^verbatim>\<open>produce_messages\<close> nor \<^verbatim>\<open>consume_messages\<close> closes the client it has
  created: no run of the program, whatever its outcome, calls \<^verbatim>\<open>close\<close> on the producer
  or on the consumer.
\<close>

theorem never_closes:
  "\<not> list_ex is_close (trace (snd (main f (boot logs))))"
proof -
  obtain tail where tail: "trace (snd (main f (boot logs))) =
      trace (snd (main_body f (boot logs))) @ tail" "\<not> list_ex is_close tail"
    using main_trace by blast
  have "\<not> list_ex is_close (trace (snd (main_body f (boot logs))))"
  proof (cases "fst (produce_messages f (boot logs)) = Returned None")
    case True
    then obtain es where "trace (snd (main_body f (boot logs))) =
        trace (boot logs) @ publish_events @ Sleep 2 # NewConsumer consumer_settings # es"
      "\<not> list_ex is_close es"
      using main_body_late_trace by blast
    then show ?thesis
      by (simp add: boot_def publish_events_def)
  next
    case False
    with produce_messages_outcomes [of f "boot logs"]
    obtain e where "fst (produce_messages f (boot logs)) = Raised e" by blast
    then obtain es where "trace (snd (main_body f (boot logs))) = trace (boot logs) @ es"
      "\<not> list_ex is_close es"
      using main_body_early_trace by blast
    then show ?thesis
      by (simp add: boot_def)
  qed
  with tail show ?thesis by simp
qed

text \<open>
  In the run without failures each client is created once and closed zero times.
\<close>

theorem session_close_counterexample:
  "count_list (trace (snd (main no_faults (boot empty_logs))))
      (NewProducer ''localhost:9092'') = 1
   \<and> count_list (trace (snd (main no_faults (boot empty_logs)))) CloseProducer = 0
   \<and> count_list (trace (snd (main no_faults (boot empty_logs))))
      (NewConsumer consumer_settings) = 1
   \<and> count_list (trace (snd (main no_faults (boot empty_logs)))) CloseConsumer = 0"
  by (simp add: run_defs)

subsection \<open>A payload that does not decode\<close>

text \<open>
  C8. When a received payload fails to decode, the receive loop stops there and never
  skips the message: Python's \<^verbatim>\<open>UnicodeDecodeError\<close> leaves \<^verbatim>\<open>consume_messages\<close>, the messages
  before the malformed one have been printed, and no later message is pulled or printed.
  The program has no classification of its own for this error: in a run without other
  failures \<^verbatim>\<open>__main__\<close> reports it through its generic handler, as
  \<^verbatim>\<open>An unexpected error occurred:\<close> followed by the text of the exception.
\<close>

theorem undecodable_message_stops:
  assumes "consumer_init_error f = None" and "poll_error f = (\<lambda>k. None)"
    and "list_all decodable pre" and "decode_utf8 bad = Inl e"
    and "topics w ''test_topic'' = pre @ bad # post"
    and "logs ''test_topic'' = pre @ bad # post"
  shows "fst (consume_messages f w) = Raised e
     \<and> e = UnicodeDecodeError (str_of e)
     \<and> trace (snd (consume_messages f w)) =
         trace w @ NewConsumer consumer_settings # concat (map handled pre) @ [Yield bad]
     \<and> stdout_of (drop (length (trace w)) (trace (snd (consume_messages f w)))) =
         map (\<lambda>m. ''Received message: '' @ m) pre
     \<and> received (trace (snd (main no_faults (boot logs)))) = pre @ [bad]
     \<and> stdout_of (trace (snd (main no_faults (boot logs)))) =
         ''Message sent successfully: Hello, Kafka!'' #
         map (\<lambda>m. ''Received message: '' @ m) pre @
         [''An unexpected error occurred: '' @ str_of e]"
proof -
  have c: "consume_messages f w =
     (Raised e,
      w\<lparr>trace := trace w @ NewConsumer consumer_settings #
          concat (map handled pre) @ [Yield bad]\<rparr>)"
    using assms(1-5) by (intro consume_messages_stop) simp_all
  have k: "e = UnicodeDecodeError (str_of e)" "\<not> is_KafkaError e"
    using decode_utf8_raises [OF assms(4)] by simp_all
  have b: "main_body no_faults (boot logs) =
     (Raised e,
      \<lparr>topics = logs(''test_topic'' := logs ''test_topic'' @ [''Hello, Kafka!'']),
       in_flight = [],
       trace = publish_events @ Sleep 2 # NewConsumer consumer_settings #
          concat (map handled pre) @ [Yield bad]\<rparr>)"
    using assms(3,4,6) by (rule main_body_stop)
  have l: "error_line e = ''An unexpected error occurred: '' @ str_of e"
    using k(2) by (simp add: error_line_def)
  have m: "trace (snd (main no_faults (boot logs))) =
      publish_events @ Sleep 2 # NewConsumer consumer_settings #
          concat (map handled pre) @ [Yield bad, Print (error_line e)]"
    by (simp add: main_raised [OF b])
  have r: "received (trace (snd (main no_faults (boot logs)))) = pre @ [bad]"
    unfolding m by (simp add: received_append received_handled publish_events_def)
  have o: "stdout_of (trace (snd (main no_faults (boot logs)))) =
         ''Message sent successfully: Hello, Kafka!'' #
         map (\<lambda>m. ''Received message: '' @ m) pre @
         [''An unexpected error occurred: '' @ str_of e]"
    unfolding m by (simp add: stdout_of_append stdout_of_handled publish_events_def l)
  show ?thesis
    using k(1) r o by (simp add: c stdout_of_append stdout_of_handled)
qed

text \<open>The byte \<open>0xFF\<close> between two good messages: the second good one is never reached.\<close>

theorem undecodable_message_stops_witness:
  "fst (consume_messages no_faults
      (boot (empty_logs(''test_topic'' := [''a'', [CHR 0xFF], ''b''])))) =
     Raised (UnicodeDecodeError
       (codec_text @ ''byte 0xff in position 0: invalid start byte''))
   \<and> trace (snd (consume_messages no_faults
        (boot (empty_logs(''test_topic'' := [''a'', [CHR 0xFF], ''b''])))))
       = [NewConsumer consumer_settings, Yield ''a'', Print ''Received message: a'', Sleep 1,
          Yield [CHR 0xFF]]
   \<and> received (trace (snd (main no_faults
        (boot (empty_logs(''test_topic'' := [''a'', [CHR 0xFF], ''b''])))))) =
       [''a'', [CHR 0xFF]]
   \<and> stdout_of (trace (snd (main no_faults
        (boot (empty_logs(''test_topic'' := [''a'', [CHR 0xFF], ''b'']))))))
       = [''Message sent successfully: Hello, Kafka!'', ''Received message: a'',
          ''An unexpected error occurred: '' @ codec_text @
            ''byte 0xff in position 0: invalid start byte'']"
proof -
  let ?logs = "empty_logs(''test_topic'' := [''a'', [CHR 0xFF], ''b''])"
  let ?e = "UnicodeDecodeError (codec_text @ ''byte 0xff in position 0: invalid start byte'')"
  have a: "consumer_init_error no_faults = None" "poll_error no_faults = (\<lambda>k. None)"
    by (simp_all add: no_faults_def)
  have d: "list_all decodable [''a'']"
    by (simp add: decodable_def continuation_def)
  have x: "decode_utf8 [CHR 0xFF] = Inl ?e"
    by (simp add: decode_utf8_def fault_text_def hex2_def digits_def decimal.simps)
  have t: "topics (boot ?logs) ''test_topic'' = [''a''] @ [CHR 0xFF] # [''b'']"
    by (simp add: boot_def)
  have l: "?logs ''test_topic'' = [''a''] @ [CHR 0xFF] # [''b'']"
    by simp
  from undecodable_message_stops [where logs = "?logs" and w = "boot ?logs", OF a d x t l]
  show ?thesis
    by (simp add: boot_def handled_def)
qed

text \<open>
  A topic that retains only the byte \<open>0xFF\<close>: the error that ends the sequence is the
  interpreter's \<^verbatim>\<open>UnicodeDecodeError\<close>, and \<^verbatim>\<open>__main__\<close> prints for it the very line it prints
  for any other unclassified exception with the same text.
\<close>

theorem malformed_message_counterexample:
  "fst (consume_messages no_faults (boot (empty_logs(''test_topic'' := [[CHR 0xFF]])))) =
     Raised (UnicodeDecodeError
       (codec_text @ ''byte 0xff in position 0: invalid start byte''))
   \<and> stdout_of (trace (snd (main no_faults
        (boot (empty_logs(''test_topic'' := [[CHR 0xFF]]))))))
       = [''Message sent successfully: Hello, Kafka!'',
          ''An unexpected error occurred: '' @ codec_text @
            ''byte 0xff in position 0: invalid start byte'']
   \<and> error_line (UnicodeDecodeError
         (codec_text @ ''byte 0xff in position 0: invalid start byte'')) =
       error_line (OtherException
         (codec_text @ ''byte 0xff in position 0: invalid start byte''))"
  by (simp add: run_defs error_line_def)

subsection \<open>What the user sees of a failure\<close>

text \<open>
  C9. The script always runs to its end, so the process exits with status 0, also after
  a failure. For an exception raised in either phase, \<^verbatim>\<open>__main__\<close> prints one more line:
  \<^verbatim>\<open>An error occurred:\<close> and the text of the exception for a \<^verbatim>\<open>KafkaError\<close>,
  \<^verbatim>\<open>An unexpected error occurred:\<close> and the text of the exception for any other one.
  When no exception is raised it prints nothing more.
\<close>

theorem failure_report:
  "exit_status (fst (main f w)) = Some 0
   \<and> (fst (main_body f w) = Raised e \<longrightarrow>
        trace (snd (main f w)) = trace (snd (main_body f w)) @ [Print (error_line e)])
   \<and> (fst (main_body f w) = Returned () \<longrightarrow> main f w = main_body f w)"
proof (intro conjI impI)
  show "exit_status (fst (main f w)) = Some 0"
    by (simp add: main_result)
next
  assume "fst (main_body f w) = Raised e"
  then have "main_body f w = (Raised e, snd (main_body f w))"
    by (cases "main_body f w") simp
  then show "trace (snd (main f w)) = trace (snd (main_body f w)) @ [Print (error_line e)]"
    by (simp add: main_raised)
next
  assume "fst (main_body f w) = Returned ()"
  then have "main_body f w = (Returned (), snd (main_body f w))"
    by (cases "main_body f w") simp
  then show "main f w = main_body f w"
    by (simp add: main_returned)
qed

theorem failure_report_witness:
  "exit_status (fst (main unreachable (boot empty_logs))) = Some 0
   \<and> trace (snd (main unreachable (boot empty_logs))) =
       [NewProducer ''localhost:9092'', Send ''test_topic'' ''Hello, Kafka!'',
        Print ''An unexpected error occurred: connection reset'']"
proof -
  have r: "main_body unreachable (boot empty_logs) =
     (Raised (OtherException ''connection reset''),
      \<lparr>topics = empty_logs, in_flight = [],
       trace = [NewProducer ''localhost:9092'', Send ''test_topic'' ''Hello, Kafka!'']\<rparr>)"
    by (simp add: main_body_def produce_messages_def then_do_def KafkaProducer_def
        producer_send_def emit_def boot_def unreachable_def no_faults_def Let_def)
  from failure_report [of unreachable "boot empty_logs" "OtherException ''connection reset''"]
  show ?thesis
    by (simp add: r error_line_def)
qed

text \<open>
  With no broker to reach, the run fails, prints the text of the exception behind a
  fixed prefix, and exits with status 0.
\<close>

theorem failure_exit_status_counterexample:
  "fst (main_body no_broker (boot empty_logs)) = Raised (KafkaError ''NoBrokersAvailable'')
   \<and> exit_status (fst (main no_broker (boot empty_logs))) = Some 0
   \<and> stdout_of (trace (snd (main no_broker (boot empty_logs)))) =
       [''An error occurred: NoBrokersAvailable'']"
  by (simp add: run_defs)

subsection \<open>A failed publish ends the run\<close>

text \<open>
  C10. When the publish phase raises an exception, a Kafka error or any other, the
  consume phase is never entered: the run creates no consumer and receives no message,
  and all it prints is the one error line.
\<close>

theorem publish_failure_aborts:
  assumes "fst (produce_messages f (boot logs)) = Raised e"
  shows "fst (main f (boot logs)) = Returned ()
     \<and> \<not> list_ex consumer_event (trace (snd (main f (boot logs))))
     \<and> received (trace (snd (main f (boot logs)))) = []
     \<and> stdout_of (trace (snd (main f (boot logs)))) = [error_line e]"
proof -
  obtain es where es: "trace (snd (produce_messages f (boot logs))) = es"
    "stdout_of es = []" "\<not> list_ex consumer_event es"
    using produce_messages_raised [OF assms] by (auto simp: boot_def)
  have b: "main_body f (boot logs) = (Raised e, snd (produce_messages f (boot logs)))"
    using assms by (rule main_body_raised_early)
  have t: "trace (snd (main f (boot logs))) = es @ [Print (error_line e)]"
    by (simp add: main_raised [OF b] es(1))
  have c: "\<not> list_ex consumer_event (es @ [Print (error_line e)])"
    using es(3) by simp
  show ?thesis
    using es(2) c by (simp add: t main_result stdout_of_append received_none)
qed

text \<open>A flush that times out: one error line, and no consumer.\<close>

theorem publish_failure_aborts_witness:
  "fst (main timed_out (boot empty_logs)) = Returned ()
     \<and> \<not> list_ex consumer_event (trace (snd (main timed_out (boot empty_logs))))
     \<and> received (trace (snd (main timed_out (boot empty_logs)))) = []
     \<and> stdout_of (trace (snd (main timed_out (boot empty_logs)))) =
         [''An error occurred: KafkaTimeoutError'']"
proof -
  have r: "fst (produce_messages timed_out (boot empty_logs)) =
      Raised (KafkaError ''KafkaTimeoutError'')"
    by (simp add: produce_messages_result timed_out_def no_faults_def)
  from publish_failure_aborts [OF r] show ?thesis
    by (simp add: error_line_def)
qed

end
